theory Spec2Isabelle
  imports Complex_Main
begin

section \<open>The TypeScript backend: \<open>POST /api/analyze-pose\<close> (dist/server.js)\<close>

text \<open>
  The handler reads two uploaded files and the form field \<open>height\<close>, forwards them to
  the Python pose service and answers with what the service returned. Its effects are
  the files it deletes, the call to the service and the response it sends; the model
  returns the file system after the request and the effects in the order they happen.

  JavaScript strings are lists of characters; the one non-ASCII letter of the source's
  messages is written by its code point.
\<close>

text \<open>A file stored by the upload middleware: \<open>file.path\<close> and \<open>file.filename\<close>.\<close>

record upload =
  path :: string
  filename :: string

text \<open>
  \<open>req.files\<close> and \<open>req.body\<close>: each file field holds at most one file
  (\<open>maxCount: 1\<close>); a field that was not sent is \<open>undefined\<close>, here \<open>None\<close>.
\<close>

record analyze_request =
  image_front :: "upload option"
  image_side :: "upload option"
  height :: "string option"

text \<open>
  What \<open>axios.post\<close> throws: \<open>error.code\<close>, \<open>error.message\<close> and
  \<open>error.response?.data?.detail\<close>, each possibly undefined.
\<close>

record axios_error =
  code :: "string option"
  message :: "string option"
  response_detail :: "string option"

text \<open>The JSON body of a response: \<open>{success: false, detail}\<close> or the service's data.\<close>

datatype 'd body = Detail string | Payload 'd

datatype 'd effect =
    CallPython upload upload string
  | Unlink string
  | Respond nat "'d body"

text \<open>The pose service, a black box: it answers with data or the call throws.\<close>

type_synonym 'd python_service = "upload \<Rightarrow> upload \<Rightarrow> string \<Rightarrow> axios_error + 'd"

text \<open>JavaScript truthiness of a possibly undefined string, and \<open>a || b\<close> on strings.\<close>

fun truthy :: "string option \<Rightarrow> bool" where
  "truthy None = False"
| "truthy (Some s) = (s \<noteq> [])"

fun or_else :: "string option \<Rightarrow> string \<Rightarrow> string" where
  "or_else None d = d"
| "or_else (Some s) d = (if s = [] then d else s)"

text \<open>\<open>s.includes(t)\<close>: \<open>t\<close> occurs in \<open>s\<close> as a contiguous substring.\<close>

fun str_includes :: "string \<Rightarrow> string \<Rightarrow> bool" where
  "str_includes [] t = (t = [])"
| "str_includes (c # s) t = (take (length t) (c # s) = t \<or> str_includes s t)"

text \<open>
  \<open>filesCleanup.forEach(path => { if (fs.existsSync(path)) fs.unlinkSync(path); })\<close>
  over the set of paths that exist.
\<close>

fun cleanup :: "string list \<Rightarrow> string set \<Rightarrow> string set \<times> 'd effect list" where
  "cleanup [] files = (files, [])"
| "cleanup (p # ps) files =
     (if p \<in> files
      then (case cleanup ps (files - {p}) of (files', es) \<Rightarrow> (files', Unlink p # es))
      else cleanup ps files)"

definition timeout_detail :: string where
  "timeout_detail = ''Le microservice Python ne r'' @ [CHR 0xE9] @ ''pond pas (timeout).''"

definition refused_detail :: string where
  "refused_detail = ''Connexion refus'' @ [CHR 0xE9] @ ''e vers le microservice Python.''"

text \<open>The \<open>catch\<close> block's choice of response, after the clean-up.\<close>

definition error_response :: "axios_error \<Rightarrow> 'd effect" where
  "error_response err =
     (let errMsg = or_else (message err) ''Error analyzing image'' in
      if code err = Some ''ECONNABORTED'' \<or> str_includes errMsg ''timeout''
      then Respond 504 (Detail timeout_detail)
      else if code err = Some ''ECONNREFUSED''
      then Respond 502 (Detail refused_detail)
      else Respond 500 (Detail (or_else (response_detail err) errMsg)))"

text \<open>
  The handler. The two early returns leave the \<open>try\<close> block without entering
  \<open>catch\<close>, so they delete nothing.
\<close>

definition analyze_pose ::
  "'d python_service \<Rightarrow> string set \<Rightarrow> analyze_request \<Rightarrow> string set \<times> 'd effect list" where
  "analyze_pose py files req =
     (case (image_front req, image_side req) of
        (Some fileFront, Some fileSide) \<Rightarrow>
          (let filesCleanup = [path fileFront, path fileSide] in
           if \<not> truthy (height req)
           then (files, [Respond 400 (Detail ''Height parameter is required'')])
           else
             (case py fileFront fileSide (the (height req)) of
                Inr data \<Rightarrow>
                  (case cleanup filesCleanup files of
                     (files', es) \<Rightarrow>
                       (files', CallPython fileFront fileSide (the (height req)) # es
                                @ [Respond 200 (Payload data)]))
              | Inl err \<Rightarrow>
                  (case cleanup filesCleanup files of
                     (files', es) \<Rightarrow>
                       (files', CallPython fileFront fileSide (the (height req)) # es
                                @ [error_response err]))))
      | _ \<Rightarrow> (files, [Respond 400 (Detail ''Both image_front and image_side are required'')]))"

text \<open>Readings of an effect list.\<close>

fun is_call :: "'d effect \<Rightarrow> bool" where
  "is_call (CallPython _ _ _) = True"
| "is_call _ = False"

fun is_respond :: "'d effect \<Rightarrow> bool" where
  "is_respond (Respond _ _) = True"
| "is_respond _ = False"

fun is_unlink :: "'d effect \<Rightarrow> bool" where
  "is_unlink (Unlink _) = True"
| "is_unlink _ = False"

definition calls_python :: "'d effect list \<Rightarrow> bool" where
  "calls_python es = list_ex is_call es"

text \<open>Concrete pose services and uploads used in the examples.\<close>

definition py_ok :: "string python_service" where
  "py_ok front side h = Inr ''measurements''"

definition py_refused :: "string python_service" where
  "py_refused front side h =
     Inl \<lparr>code = Some ''ECONNREFUSED'', message = Some ''connect ECONNREFUSED'',
          response_detail = None\<rparr>"

definition front_jpeg :: upload where
  "front_jpeg = \<lparr>path = ''uploads/a-front.jpeg'', filename = ''a-front.jpeg''\<rparr>"

definition side_jpeg :: upload where
  "side_jpeg = \<lparr>path = ''uploads/b-side.jpeg'', filename = ''b-side.jpeg''\<rparr>"

section \<open>The session relay: the Socket.IO handlers of dist/server.js\<close>

text \<open>
  The relay keeps two maps, \<open>sessions\<close> (session id to session) and
  \<open>socketToSession\<close> (socket id to the session id the socket last joined). Each
  handler is a function from the state to the new state and the messages it emits.
\<close>

datatype session_status = Waiting | Connected

record session =
  pcSocketId :: string
  mobileSocketId :: "string option"
  status :: session_status
  createdAt :: nat

record relay =
  sessions :: "string \<rightharpoonup> session"
  socketToSession :: "string \<rightharpoonup> string"

datatype message =
    Error string
  | MobileConnected
  | SessionReady
  | PhotoReceived string
  | CaptureRequested

text \<open>\<open>socket.emit(...)\<close> answers the sender; \<open>io.to(room).emit(...)\<close> addresses a room.\<close>

datatype emit = ToSocket string message | ToRoom string message

definition new_session :: "string \<Rightarrow> nat \<Rightarrow> session" where
  "new_session pc now =
     \<lparr>pcSocketId = pc, mobileSocketId = None, status = Waiting, createdAt = now\<rparr>"

text \<open>
  \<open>GET /api/generate-qr\<close>: the session id is \<open>req.query.sessionId || uuidv4()\<close>;
  the fresh identifier and the clock are inputs of the model.
\<close>

definition generate_qr :: "string option \<Rightarrow> string \<Rightarrow> nat \<Rightarrow> relay \<Rightarrow> relay" where
  "generate_qr query uuid now st =
     (let sessionId = or_else query uuid in
      if sessions st sessionId = None
      then st\<lparr>sessions := (sessions st)(sessionId \<mapsto> new_session sessionId now)\<rparr>
      else st)"

definition pc_join :: "string \<Rightarrow> string \<Rightarrow> nat \<Rightarrow> relay \<Rightarrow> relay" where
  "pc_join socket sessionId now st =
     (let st' =
        (case sessions st sessionId of
           None \<Rightarrow> st\<lparr>sessions := (sessions st)(sessionId \<mapsto> new_session socket now)\<rparr>
         | Some s \<Rightarrow> st\<lparr>sessions := (sessions st)(sessionId \<mapsto> s\<lparr>pcSocketId := socket\<rparr>)\<rparr>)
      in st'\<lparr>socketToSession := (socketToSession st')(socket \<mapsto> sessionId)\<rparr>)"

definition mobile_join :: "string \<Rightarrow> string \<Rightarrow> relay \<Rightarrow> relay \<times> emit list" where
  "mobile_join socket sessionId st =
     (case sessions st sessionId of
        None \<Rightarrow> (st, [ToSocket socket (Error ''Session not found'')])
      | Some s \<Rightarrow>
          (st\<lparr>sessions :=
                (sessions st)(sessionId \<mapsto> s\<lparr>mobileSocketId := Some socket, status := Connected\<rparr>),
              socketToSession := (socketToSession st)(socket \<mapsto> sessionId)\<rparr>,
           [ToRoom (pcSocketId s) MobileConnected, ToSocket socket SessionReady]))"

definition photo_captured :: "string \<Rightarrow> string \<Rightarrow> relay \<Rightarrow> emit list" where
  "photo_captured sessionId imageData st =
     (case sessions st sessionId of
        None \<Rightarrow> []
      | Some s \<Rightarrow> [ToRoom (pcSocketId s) (PhotoReceived imageData)])"

definition trigger_capture :: "string \<Rightarrow> string \<Rightarrow> relay \<Rightarrow> emit list" where
  "trigger_capture socket sessionId st =
     (case sessions st sessionId of
        None \<Rightarrow> [ToSocket socket (Error ''Session not found'')]
      | Some s \<Rightarrow> [ToRoom (pcSocketId s) CaptureRequested])"

text \<open>
  The disconnect handler. \<open>if (sessionId)\<close> is false for a socket that joined nothing
  and for the empty session id; the PC branch is tested before the mobile branch.
\<close>

definition disconnect :: "string \<Rightarrow> relay \<Rightarrow> relay" where
  "disconnect socket st =
     (if truthy (socketToSession st socket)
      then
        (let sessionId = the (socketToSession st socket);
             st' =
               (case sessions st sessionId of
                  None \<Rightarrow> st
                | Some s \<Rightarrow>
                    if pcSocketId s = socket then st
                    else if mobileSocketId s = Some socket
                    then st\<lparr>sessions :=
                            (sessions st)(sessionId \<mapsto> s\<lparr>mobileSocketId := None, status := Waiting\<rparr>)\<rparr>
                    else st)
         in st'\<lparr>socketToSession := (socketToSession st')(socket := None)\<rparr>)
      else st)"

datatype event =
    GenerateQr "string option" string nat
  | PcJoin string string nat
  | MobileJoin string string
  | PhotoCaptured string string string
  | TriggerCapture string string
  | Disconnect string

fun step :: "relay \<Rightarrow> event \<Rightarrow> relay \<times> emit list" where
  "step st (GenerateQr query uuid now) = (generate_qr query uuid now st, [])"
| "step st (PcJoin socket sessionId now) = (pc_join socket sessionId now st, [])"
| "step st (MobileJoin socket sessionId) = mobile_join socket sessionId st"
| "step st (PhotoCaptured socket sessionId imageData) = (st, photo_captured sessionId imageData st)"
| "step st (TriggerCapture socket sessionId) = (st, trigger_capture socket sessionId st)"
| "step st (Disconnect socket) = (disconnect socket st, [])"

definition initial :: relay where
  "initial = \<lparr>sessions = Map.empty, socketToSession = Map.empty\<rparr>"

text \<open>The states the relay can reach: the initial one and those one event further.\<close>

inductive reachable :: "relay \<Rightarrow> bool" where
  start: "reachable initial"
| next_event: "reachable st \<Longrightarrow> reachable (fst (step st e))"

text \<open>The mobile peers a session records, and what every stored session satisfies.\<close>

definition mobile_peers :: "session \<Rightarrow> string set" where
  "mobile_peers s = set_option (mobileSocketId s)"

definition session_ok :: "session \<Rightarrow> bool" where
  "session_ok s = (card (mobile_peers s) \<le> 1 \<and> (status s = Connected) = (mobileSocketId s \<noteq> None))"

definition relay_ok :: "relay \<Rightarrow> bool" where
  "relay_ok st = (\<forall>s \<in> ran (sessions st). session_ok s)"

text \<open>Running a list of events from the initial state.\<close>

definition run_events :: "event list \<Rightarrow> relay" where
  "run_events es = foldl (\<lambda>st e. fst (step st e)) initial es"

text \<open>Event sequences used in the examples.\<close>

definition paired :: "event list" where
  "paired = [PcJoin ''pc1'' ''A'' 1, MobileJoin ''m'' ''A'']"

definition two_sessions :: "event list" where
  "two_sessions =
     [PcJoin ''pc1'' ''A'' 1, PcJoin ''pc2'' ''B'' 2, MobileJoin ''m'' ''A'', MobileJoin ''m'' ''B'']"

definition both_roles :: "event list" where
  "both_roles = [PcJoin ''s'' ''A'' 1, MobileJoin ''s'' ''A'']"

section \<open>The size recommendation as the front end shows it (PhotoCapture.tsx)\<close>

text \<open>
  The answer of \<open>POST /recommend-size\<close> as the component reads it:
  \<open>sizeRecommendation.recommendations.male_size\<close> and \<open>.female_size\<close>, each a size
  label or null.
\<close>

record recommendations =
  male_size :: "string option"
  female_size :: "string option"

datatype element = SizeCard string string | Paragraph string

text \<open>
  The children of \<open><div className="size-results">\<close>: a card per gender whose size is
  truthy, and the sentence "Aucune taille disponible pour ces mesures" when neither is.
\<close>

definition size_results :: "recommendations \<Rightarrow> element list" where
  "size_results r =
     (if truthy (male_size r) then [SizeCard ''Homme:'' (the (male_size r))] else [])
     @ (if truthy (female_size r) then [SizeCard ''Femme:'' (the (female_size r))] else [])
     @ (if \<not> truthy (male_size r) \<and> \<not> truthy (female_size r)
        then [Paragraph ''Aucune taille disponible pour ces mesures''] else [])"

section \<open>The measurement core of the Python service, from the specification\<close>

text \<open>
  The Python microservice (\<open>microservices/python\<close>) that calibrates, estimates and
  recommends is not among the sources; the TypeScript backend only forwards to it. Its
  operations are modelled from the specification. Python floats are modelled as real
  numbers: the operations below only compare them and divide once.
\<close>

datatype failure =
    InvalidHeight
  | InsufficientKeypoints
  | NoSubjectDetected
  | UnknownBrand
  | UnknownCategory

datatype gender = Male | Female

text \<open>
  Modelled from the spec: the SizeChart reference data (section 3 and 6), keyed
  brand, category, gender, size label, measurement name, with a closed range
  \<open>[min, max]\<close> per measurement. The size labels of a table are listed in the brand's
  defined ordering, smallest first.
\<close>

type_synonym ranges = "(string \<times> real \<times> real) list"

type_synonym size_table = "(string \<times> ranges) list"

type_synonym size_chart = "string \<rightharpoonup> (string \<rightharpoonup> (gender \<Rightarrow> size_table))"

type_synonym measurements = "string \<rightharpoonup> real"

text \<open>
  Modelled from the spec: the SizeRecommender's test that a size's range for every
  required measurement contains the corresponding input value (section 4.4). The
  required measurements of a size are those its range mapping lists; a measurement the
  input does not give is contained in no range.
\<close>

fun fits :: "measurements \<Rightarrow> ranges \<Rightarrow> bool" where
  "fits ms [] = True"
| "fits ms ((name, lo, hi) # rs) =
     ((case ms name of None \<Rightarrow> False | Some v \<Rightarrow> lo \<le> v \<and> v \<le> hi) \<and> fits ms rs)"

text \<open>
  Modelled from the spec: the search for the smallest size label, in the brand's
  ordering, whose ranges contain the measurements; no match when none does
  (section 4.4).
\<close>

fun find_size :: "measurements \<Rightarrow> size_table \<Rightarrow> string option" where
  "find_size ms [] = None"
| "find_size ms ((label, rs) # rest) =
     (if fits ms rs then Some label else find_size ms rest)"

text \<open>
  Modelled from the spec: \<open>recommend(measurements_subset, brand, category)\<close> of the
  SizeRecommender (section 4.4), absent from the sources: one search per gender's
  table, \<open>UnknownBrand\<close> and \<open>UnknownCategory\<close> when a lookup key is absent.
\<close>

definition recommend ::
  "size_chart \<Rightarrow> measurements \<Rightarrow> string \<Rightarrow> string \<Rightarrow> failure + recommendations" where
  "recommend chart ms brand category =
     (case chart brand of
        None \<Rightarrow> Inl UnknownBrand
      | Some categories \<Rightarrow>
          (case categories category of
             None \<Rightarrow> Inl UnknownCategory
           | Some tables \<Rightarrow>
               Inr \<lparr>male_size = find_size ms (tables Male),
                    female_size = find_size ms (tables Female)\<rparr>))"

fun size_for :: "gender \<Rightarrow> recommendations \<Rightarrow> string option" where
  "size_for Male r = male_size r"
| "size_for Female r = female_size r"

fun card_title :: "gender \<Rightarrow> string" where
  "card_title Male = ''Homme:''"
| "card_title Female = ''Femme:''"

text \<open>The position of the first size of a table that fits, as a predicate on indices.\<close>

definition first_fit :: "measurements \<Rightarrow> size_table \<Rightarrow> nat \<Rightarrow> bool" where
  "first_fit ms table i =
     (i < length table \<and> fits ms (snd (table ! i)) \<and> (\<forall>j < i. \<not> fits ms (snd (table ! j))))"

text \<open>A size chart for the examples: one brand, one category, overlapping ranges.\<close>

definition tops_male :: size_table where
  "tops_male =
     [(''S'', [(''chest'', 88, 96), (''waist'', 70, 78)]),
      (''M'', [(''chest'', 94, 102), (''waist'', 76, 84)]),
      (''L'', [(''chest'', 100, 108), (''waist'', 82, 90)])]"

definition tops_female :: size_table where
  "tops_female =
     [(''S'', [(''chest'', 80, 88), (''waist'', 62, 70)]),
      (''M'', [(''chest'', 86, 94), (''waist'', 68, 76)])]"

fun tops_tables :: "gender \<Rightarrow> size_table" where
  "tops_tables Male = tops_male"
| "tops_tables Female = tops_female"

definition example_chart :: size_chart where
  "example_chart = [''Zara'' \<mapsto> [''tops'' \<mapsto> tops_tables]]"

definition between_s_and_m :: measurements where
  "between_s_and_m = [''chest'' \<mapsto> 95, ''waist'' \<mapsto> 77]"

definition too_large :: measurements where
  "too_large = [''chest'' \<mapsto> 130, ''waist'' \<mapsto> 120]"

text \<open>
  Modelled from the spec: the KeypointSet data model (section 3): seventeen named body
  joints, each with pixel coordinates and a detection confidence.
\<close>

datatype joint =
    Nose | LeftEye | RightEye | LeftEar | RightEar
  | LeftShoulder | RightShoulder | LeftElbow | RightElbow | LeftWrist | RightWrist
  | LeftHip | RightHip | LeftKnee | RightKnee | LeftAnkle | RightAnkle

record keypoint =
  kp_x :: real
  kp_y :: real
  confidence :: real

type_synonym keypoint_set = "joint \<Rightarrow> keypoint"

text \<open>
  Modelled from the spec: \<open>calibrate(keypoints, known_height_cm)\<close> of the
  ScaleCalibrator (section 4.1), absent from the sources. The known height is rejected
  as \<open>InvalidHeight\<close> when it is at most 0 or above 250 cm; otherwise the scale is the
  known height divided by the detected pixel height, and the calibration fails with
  \<open>InsufficientKeypoints\<close> when there is no usable vertical extent or it is at most
  the minimum sane pixel height. The specification leaves the margin factors and the
  choice among the head and foot keypoints open, so the detected pixel height is a
  parameter: \<open>None\<close> when fewer than two reliable vertical-extent points exist.
\<close>

definition calibrate ::
  "(keypoint_set \<Rightarrow> real option) \<Rightarrow> real \<Rightarrow> keypoint_set \<Rightarrow> real \<Rightarrow> failure + real" where
  "calibrate detected_pixel_height min_pixel_height keypoints known_height_cm =
     (if known_height_cm \<le> 0 \<or> known_height_cm > 250 then Inl InvalidHeight
      else
        (case detected_pixel_height keypoints of
           None \<Rightarrow> Inl InsufficientKeypoints
         | Some pixels \<Rightarrow>
             if pixels \<le> min_pixel_height then Inl InsufficientKeypoints
             else Inr (known_height_cm / pixels)))"

text \<open>
  Modelled from the spec: \<open>analyze(images, height_cm)\<close> (sections 2 and 6), absent
  from the sources. The pose detector has produced zero or one keypoint set per image
  (\<open>None\<close>: no subject); the side image is optional. A missing subject is
  \<open>NoSubjectDetected\<close>, a failed calibration fails the analysis, and the estimation of
  the measurements from the keypoints and the scale is a parameter.
\<close>

definition analyze ::
  "(keypoint_set \<Rightarrow> real option) \<Rightarrow> real \<Rightarrow>
   (keypoint_set \<Rightarrow> keypoint_set option \<Rightarrow> real \<Rightarrow> 'r) \<Rightarrow>
   keypoint_set option \<Rightarrow> keypoint_set option option \<Rightarrow> real \<Rightarrow> failure + 'r" where
  "analyze detected_pixel_height min_pixel_height estimate front side height_cm =
     (case front of
        None \<Rightarrow> Inl NoSubjectDetected
      | Some front_keypoints \<Rightarrow>
          (case side of
             Some None \<Rightarrow> Inl NoSubjectDetected
           | _ \<Rightarrow>
               (case calibrate detected_pixel_height min_pixel_height front_keypoints height_cm of
                  Inl e \<Rightarrow> Inl e
                | Inr scale \<Rightarrow>
                    Inr (estimate front_keypoints (case side of None \<Rightarrow> None | Some s \<Rightarrow> s) scale))))"

text \<open>
  The keypoints of the specification's end-to-end example (section 8), with a detected
  pixel height read from the nose and the left ankle, and the shoulder width in pixels
  times the scale as the estimate.
\<close>

definition undetected :: keypoint where
  "undetected = \<lparr>kp_x = 0, kp_y = 0, confidence = 0\<rparr>"

definition example_keypoints :: keypoint_set where
  "example_keypoints =
     (\<lambda>j. undetected)
       (LeftShoulder := \<lparr>kp_x = 60, kp_y = 75, confidence = 9 / 10\<rparr>,
        RightShoulder := \<lparr>kp_x = 140, kp_y = 75, confidence = 9 / 10\<rparr>,
        Nose := \<lparr>kp_x = 100, kp_y = 35, confidence = 95 / 100\<rparr>,
        LeftAnkle := \<lparr>kp_x = 100, kp_y = 432, confidence = 9 / 10\<rparr>)"

definition nose_to_ankle :: "keypoint_set \<Rightarrow> real option" where
  "nose_to_ankle k =
     (if confidence (k Nose) > 3 / 10 \<and> confidence (k LeftAnkle) > 3 / 10
      then Some \<bar>kp_y (k Nose) - kp_y (k LeftAnkle)\<bar> else None)"

definition shoulder_span :: "keypoint_set \<Rightarrow> keypoint_set option \<Rightarrow> real \<Rightarrow> real" where
  "shoulder_span k side scale = \<bar>kp_x (k LeftShoulder) - kp_x (k RightShoulder)\<bar> * scale"

section \<open>Properties of the analyze-pose handler\<close>

lemma cleanup_files: "fst (cleanup ps files :: string set \<times> 'd effect list) = files - set ps"
proof (induction ps arbitrary: files)
  case Nil
  show ?case by simp
next
  case (Cons p ps)
  show ?case
  proof (cases "p \<in> files")
    case True
    obtain f' es where c: "(cleanup ps (files - {p}) :: string set \<times> 'd effect list) = (f', es)"
      by (cases "cleanup ps (files - {p}) :: string set \<times> 'd effect list") auto
    from Cons.IH[of "files - {p}"] c have "f' = files - {p} - set ps" by simp
    with True c show ?thesis by auto
  next
    case False
    with Cons.IH[of files] show ?thesis by auto
  qed
qed

lemma cleanup_unlinks:
  "list_all is_unlink (snd (cleanup ps files :: string set \<times> 'd effect list))"
proof (induction ps arbitrary: files)
  case Nil
  show ?case by simp
next
  case (Cons p ps)
  show ?case
  proof (cases "p \<in> files")
    case True
    obtain f' es where c: "(cleanup ps (files - {p}) :: string set \<times> 'd effect list) = (f', es)"
      by (cases "cleanup ps (files - {p}) :: string set \<times> 'd effect list") auto
    from Cons.IH[of "files - {p}"] c have "list_all is_unlink es" by simp
    with True c show ?thesis by simp
  next
    case False
    with Cons.IH[of files] show ?thesis by simp
  qed
qed

lemma error_response_is_respond: "is_respond (error_response err :: 'd effect)"
  by (simp add: error_response_def Let_def)

text \<open>
  Past both validation checks the handler calls the service, runs the clean-up and
  answers last, whether the call returned or threw.
\<close>

lemma analyze_pose_validated:
  assumes f: "image_front req = Some f" and s: "image_side req = Some s"
    and h: "truthy (height req)"
  shows "\<exists>r. is_respond r \<and>
           analyze_pose py files req =
             (fst (cleanup [path f, path s] files),
              CallPython f s (the (height req)) # snd (cleanup [path f, path s] files) @ [r])"
proof (cases "py f s (the (height req))")
  case (Inl err)
  with f s h have "analyze_pose py files req =
     (fst (cleanup [path f, path s] files),
      CallPython f s (the (height req)) # snd (cleanup [path f, path s] files)
        @ [error_response err])"
    by (simp add: analyze_pose_def Let_def split: prod.splits)
  then show ?thesis using error_response_is_respond by blast
next
  case (Inr data)
  with f s h have "analyze_pose py files req =
     (fst (cleanup [path f, path s] files),
      CallPython f s (the (height req)) # snd (cleanup [path f, path s] files)
        @ [Respond 200 (Payload data)])"
    by (simp add: analyze_pose_def Let_def split: prod.splits)
  moreover have "is_respond (Respond 200 (Payload data))" by simp
  ultimately show ?thesis by blast
qed

lemma analyze_pose_no_side:
  "image_side req = None \<Longrightarrow>
   analyze_pose py files req =
     (files, [Respond 400 (Detail ''Both image_front and image_side are required'')])"
  by (simp add: analyze_pose_def split: option.splits)

text \<open>
  Claim C1, as the code has it. The handler requires both images: a request with a front
  image, a side image and a non-empty height reaches the pose service with both files
  and the height; a request with a front image and a height but no side image is
  answered 400 "Both image_front and image_side are required", nothing is sent to the
  service and no file is touched.
\<close>

theorem analyze_pose_requires_both_images:
  assumes f: "image_front req = Some f" and h: "truthy (height req)"
  shows "(\<forall>s. image_side req = Some s \<longrightarrow>
            hd (snd (analyze_pose py files req)) = CallPython f s (the (height req)) \<and>
            calls_python (snd (analyze_pose py files req)))
       \<and> (image_side req = None \<longrightarrow>
            analyze_pose py files req =
              (files, [Respond 400 (Detail ''Both image_front and image_side are required'')]) \<and>
            \<not> calls_python (snd (analyze_pose py files req)))"
proof (intro conjI allI impI)
  fix s assume s: "image_side req = Some s"
  from analyze_pose_validated[OF f s h, of py files] obtain r where
    eq: "analyze_pose py files req =
             (fst (cleanup [path f, path s] files),
              CallPython f s (the (height req)) # snd (cleanup [path f, path s] files) @ [r])"
    by blast
  from eq show "hd (snd (analyze_pose py files req)) = CallPython f s (the (height req))"
    by simp
  from eq show "calls_python (snd (analyze_pose py files req))"
    by (simp add: calls_python_def)
next
  assume n: "image_side req = None"
  from analyze_pose_no_side[OF n]
  show "analyze_pose py files req =
          (files, [Respond 400 (Detail ''Both image_front and image_side are required'')])" .
  then show "\<not> calls_python (snd (analyze_pose py files req))"
    by (simp add: calls_python_def)
qed

text \<open>
  The claim as written fails: a front image and a height, with no side image, do not
  start the analysis.
\<close>

theorem analyze_pose_front_only_counterexample:
  "analyze_pose py_ok {''uploads/a-front.jpeg''}
      \<lparr>image_front = Some front_jpeg, image_side = None, height = Some ''175''\<rparr>
   = ({''uploads/a-front.jpeg''},
      [Respond 400 (Detail ''Both image_front and image_side are required'')])
   \<and> \<not> calls_python (snd (analyze_pose py_ok {''uploads/a-front.jpeg''}
      \<lparr>image_front = Some front_jpeg, image_side = None, height = Some ''175''\<rparr>))"
  by (simp add: analyze_pose_def calls_python_def)

text \<open>
  Both branches at concrete requests: with both images the first effect is the call to
  the service; with the front image alone the answer is the 400.
\<close>

theorem analyze_pose_requires_both_images_witness:
  "hd (snd (analyze_pose py_ok {''uploads/a-front.jpeg'', ''uploads/b-side.jpeg''}
      \<lparr>image_front = Some front_jpeg, image_side = Some side_jpeg, height = Some ''175''\<rparr>))
     = CallPython front_jpeg side_jpeg ''175''
   \<and> analyze_pose py_ok {''uploads/a-front.jpeg''}
        \<lparr>image_front = Some front_jpeg, image_side = None, height = Some ''175''\<rparr>
       = ({''uploads/a-front.jpeg''},
          [Respond 400 (Detail ''Both image_front and image_side are required'')])"
  using analyze_pose_requires_both_images[of
      "\<lparr>image_front = Some front_jpeg, image_side = Some side_jpeg, height = Some ''175''\<rparr>"
      front_jpeg py_ok "{''uploads/a-front.jpeg'', ''uploads/b-side.jpeg''}"]
    analyze_pose_requires_both_images[of
      "\<lparr>image_front = Some front_jpeg, image_side = None, height = Some ''175''\<rparr>"
      front_jpeg py_ok "{''uploads/a-front.jpeg''}"]
  by simp

text \<open>
  Claim C8, as the code has it. The height is checked after the two images: a request
  that supplies both images and omits the height (or sends it empty) is answered 400
  with the detail "Height parameter is required", the pose service is not called and
  the file system is left as it was.
\<close>

theorem analyze_pose_height_required:
  assumes f: "image_front req = Some f" and s: "image_side req = Some s"
    and h: "height req = None \<or> height req = Some []"
  shows "analyze_pose py files req =
           (files, [Respond 400 (Detail ''Height parameter is required'')]) \<and>
         \<not> calls_python (snd (analyze_pose py files req))"
proof -
  from h have "\<not> truthy (height req)" by auto
  with f s have "analyze_pose py files req =
           (files, [Respond 400 (Detail ''Height parameter is required'')])"
    by (simp add: analyze_pose_def Let_def)
  then show ?thesis by (simp add: calls_python_def)
qed

text \<open>
  The claim as written fails for a request that omits the height and an image as well:
  the answer names the images, not the height.
\<close>

theorem analyze_pose_no_height_no_images_counterexample:
  "snd (analyze_pose py_ok {} \<lparr>image_front = None, image_side = None, height = None\<rparr>)
     = [Respond 400 (Detail ''Both image_front and image_side are required'')]
   \<and> snd (analyze_pose py_ok {} \<lparr>image_front = None, image_side = None, height = None\<rparr>)
     \<noteq> [Respond 400 (Detail ''Height parameter is required'')]"
  by (simp add: analyze_pose_def)

text \<open>
  A request with both images and no height: the 400 answer, both files still on disk.
\<close>

theorem analyze_pose_height_required_witness:
  "analyze_pose py_ok {''uploads/a-front.jpeg'', ''uploads/b-side.jpeg''}
      \<lparr>image_front = Some front_jpeg, image_side = Some side_jpeg, height = None\<rparr>
   = ({''uploads/a-front.jpeg'', ''uploads/b-side.jpeg''},
      [Respond 400 (Detail ''Height parameter is required'')])"
  using analyze_pose_height_required[of
      "\<lparr>image_front = Some front_jpeg, image_side = Some side_jpeg, height = None\<rparr>"
      front_jpeg side_jpeg py_ok "{''uploads/a-front.jpeg'', ''uploads/b-side.jpeg''}"]
  by simp

text \<open>
  Claim C10. For a request that passes both validation checks (both images present, a
  non-empty height), whatever the pose service does, the two uploaded files are gone
  from the file system afterwards, and the effects are: the call to the service, then
  only deletions, then the response as the last effect.
\<close>

theorem analyze_pose_deletes_uploads:
  assumes f: "image_front req = Some f" and s: "image_side req = Some s"
    and h: "truthy (height req)"
  shows "fst (analyze_pose py files req) = files - {path f, path s} \<and>
         path f \<notin> fst (analyze_pose py files req) \<and>
         path s \<notin> fst (analyze_pose py files req) \<and>
         (\<exists>us r. snd (analyze_pose py files req) = CallPython f s (the (height req)) # us @ [r] \<and>
                  list_all is_unlink us \<and> is_respond r)"
proof -
  from analyze_pose_validated[OF f s h, of py files] obtain r where
    r: "is_respond r" and
    eq: "analyze_pose py files req =
             (fst (cleanup [path f, path s] files),
              CallPython f s (the (height req)) # snd (cleanup [path f, path s] files) @ [r])"
    by blast
  have fs: "fst (analyze_pose py files req) = files - {path f, path s}"
    using eq by (simp only: fst_conv cleanup_files) auto
  have "snd (analyze_pose py files req) =
          CallPython f s (the (height req)) # snd (cleanup [path f, path s] files) @ [r]"
    using eq by simp
  with r cleanup_unlinks[of "[path f, path s]" files]
  have "\<exists>us r. snd (analyze_pose py files req) = CallPython f s (the (height req)) # us @ [r] \<and>
                  list_all is_unlink us \<and> is_respond r"
    by blast
  with fs show ?thesis by simp
qed

text \<open>
  A request whose call to the service is refused: both uploads are unlinked, a file that
  does not belong to the request stays, and the 502 answer comes last.
\<close>

theorem analyze_pose_deletes_uploads_witness:
  "analyze_pose py_refused {''uploads/a-front.jpeg'', ''uploads/b-side.jpeg'', ''uploads/other''}
      \<lparr>image_front = Some front_jpeg, image_side = Some side_jpeg, height = Some ''175''\<rparr>
   = ({''uploads/other''},
      [CallPython front_jpeg side_jpeg ''175'', Unlink ''uploads/a-front.jpeg'',
       Unlink ''uploads/b-side.jpeg'', Respond 502 (Detail refused_detail)])
   \<and> path front_jpeg \<notin> fst (analyze_pose py_refused
       {''uploads/a-front.jpeg'', ''uploads/b-side.jpeg'', ''uploads/other''}
      \<lparr>image_front = Some front_jpeg, image_side = Some side_jpeg, height = Some ''175''\<rparr>)"
proof -
  let ?req = "\<lparr>image_front = Some front_jpeg, image_side = Some side_jpeg, height = Some ''175''\<rparr>"
  let ?files = "{''uploads/a-front.jpeg'', ''uploads/b-side.jpeg'', ''uploads/other''}"
  have "path front_jpeg \<notin> fst (analyze_pose py_refused ?files ?req)"
    using analyze_pose_deletes_uploads[of ?req front_jpeg side_jpeg py_refused ?files]
    by simp
  moreover have "analyze_pose py_refused ?files ?req
     = ({''uploads/other''},
      [CallPython front_jpeg side_jpeg ''175'', Unlink ''uploads/a-front.jpeg'',
       Unlink ''uploads/b-side.jpeg'', Respond 502 (Detail refused_detail)])"
    by (auto simp add: analyze_pose_def py_refused_def front_jpeg_def side_jpeg_def
        error_response_def Let_def)
  ultimately show ?thesis by simp
qed

section \<open>Properties of the session relay\<close>

lemma session_ok_new: "session_ok (new_session pc now)"
  by (simp add: session_ok_def new_session_def mobile_peers_def)

lemma session_ok_pc: "session_ok s \<Longrightarrow> session_ok (s\<lparr>pcSocketId := p\<rparr>)"
  by (simp add: session_ok_def mobile_peers_def)

lemma session_ok_joined: "session_ok (s\<lparr>mobileSocketId := Some m, status := Connected\<rparr>)"
  by (simp add: session_ok_def mobile_peers_def)

lemma session_ok_left: "session_ok (s\<lparr>mobileSocketId := None, status := Waiting\<rparr>)"
  by (simp add: session_ok_def mobile_peers_def)

lemma relay_ok_upd:
  "relay_ok st \<Longrightarrow> session_ok s \<Longrightarrow> relay_ok (st\<lparr>sessions := (sessions st)(k \<mapsto> s)\<rparr>)"
  unfolding relay_ok_def
  by (auto simp: ran_def split: if_splits)

lemma relay_ok_sock: "relay_ok (st\<lparr>socketToSession := m\<rparr>) = relay_ok st"
  by (simp add: relay_ok_def)

lemma relay_ok_lookup: "relay_ok st \<Longrightarrow> sessions st k = Some s \<Longrightarrow> session_ok s"
  by (auto simp: relay_ok_def ran_def)

text \<open>Every handler keeps the invariant: one case per event.\<close>

lemma relay_ok_step: "relay_ok st \<Longrightarrow> relay_ok (fst (step st e))"
proof (cases e)
  case (GenerateQr q u n)
  assume "relay_ok st"
  then show ?thesis using GenerateQr
    by (simp add: generate_qr_def Let_def relay_ok_upd session_ok_new)
next
  case (PcJoin so sid n)
  assume ok: "relay_ok st"
  show ?thesis
  proof (cases "sessions st sid")
    case None
    with ok PcJoin show ?thesis
      by (simp add: pc_join_def Let_def relay_ok_sock relay_ok_upd session_ok_new)
  next
    case (Some s)
    with ok have "session_ok s" by (simp add: relay_ok_lookup)
    with ok Some PcJoin show ?thesis
      by (simp add: pc_join_def Let_def relay_ok_sock relay_ok_upd session_ok_pc)
  qed
next
  case (MobileJoin so sid)
  assume ok: "relay_ok st"
  have "relay_ok (st\<lparr>sessions :=
                       (sessions st)(sid \<mapsto> s\<lparr>mobileSocketId := Some so, status := Connected\<rparr>),
                     socketToSession := (socketToSession st)(so \<mapsto> sid)\<rparr>)" for s
    using relay_ok_upd[OF ok session_ok_joined]
    by (simp add: relay_ok_def)
  with ok MobileJoin show ?thesis
    by (simp add: mobile_join_def split: option.splits)
next
  case (PhotoCaptured a b c)
  assume "relay_ok st"
  with PhotoCaptured show ?thesis by simp
next
  case (TriggerCapture a b)
  assume "relay_ok st"
  with TriggerCapture show ?thesis by simp
next
  case (Disconnect so)
  assume ok: "relay_ok st"
  have "relay_ok (st\<lparr>sessions :=
                       (sessions st)(k \<mapsto> s\<lparr>mobileSocketId := None, status := Waiting\<rparr>)\<rparr>)" for k s
    using relay_ok_upd[OF ok session_ok_left] by simp
  with ok Disconnect show ?thesis
    by (simp add: disconnect_def Let_def relay_ok_sock split: option.splits)
qed

lemma reachable_ok: "reachable st \<Longrightarrow> relay_ok st"
proof (induction rule: reachable.induct)
  case start
  show ?case by (simp add: relay_ok_def initial_def)
next
  case (next_event st e)
  then show ?case by (simp add: relay_ok_step)
qed

lemma reachable_run: "reachable (run_events es)"
proof (induction es rule: rev_induct)
  case Nil
  show ?case by (simp add: run_events_def reachable.start)
next
  case (snoc e es)
  then show ?case by (simp add: run_events_def reachable.next_event)
qed

lemma disconnect_mobile:
  "socketToSession st sock = Some sid \<Longrightarrow> sid \<noteq> [] \<Longrightarrow> sessions st sid = Some s \<Longrightarrow>
   mobileSocketId s = Some sock \<Longrightarrow> pcSocketId s \<noteq> sock \<Longrightarrow>
   sessions (fst (step st (Disconnect sock))) =
     (sessions st)(sid \<mapsto> s\<lparr>mobileSocketId := None, status := Waiting\<rparr>)"
  by (simp add: disconnect_def Let_def)

text \<open>
  Claim C9, as the code has it. In every reachable state of the relay:
  \<^item> each stored session records at most one mobile peer, and its status is
    \<open>connected\<close> exactly when a mobile socket id is stored;
  \<^item> a mobile-join on an existing session overwrites the stored mobile socket id with
    the joining socket (the session then records that socket alone), sets the status to
    \<open>connected\<close> and changes no other session;
  \<^item> a mobile-join on an unknown session id emits the error "Session not found" to the
    sender and leaves the whole state unchanged;
  \<^item> the disconnect of a socket resets the mobile socket id to null and the status to
    \<open>waiting\<close> in the session the socket last joined, when that session has a non-empty
    id, stores the socket as its mobile and does not store it as its PC socket.
\<close>

theorem relay_one_mobile_peer:
  assumes r: "reachable st"
  shows "(\<forall>s \<in> ran (sessions st).
            card (mobile_peers s) \<le> 1 \<and> (status s = Connected) = (mobileSocketId s \<noteq> None))
       \<and> (\<forall>sock sid s. sessions st sid = Some s \<longrightarrow>
            sessions (fst (step st (MobileJoin sock sid))) =
              (sessions st)(sid \<mapsto> s\<lparr>mobileSocketId := Some sock, status := Connected\<rparr>) \<and>
            mobile_peers (s\<lparr>mobileSocketId := Some sock, status := Connected\<rparr>) = {sock})
       \<and> (\<forall>sock sid. sessions st sid = None \<longrightarrow>
            step st (MobileJoin sock sid) = (st, [ToSocket sock (Error ''Session not found'')]))
       \<and> (\<forall>sock sid s.
            socketToSession st sock = Some sid \<and> sid \<noteq> [] \<and> sessions st sid = Some s \<and>
            mobileSocketId s = Some sock \<and> pcSocketId s \<noteq> sock \<longrightarrow>
            sessions (fst (step st (Disconnect sock))) =
              (sessions st)(sid \<mapsto> s\<lparr>mobileSocketId := None, status := Waiting\<rparr>))"
proof (intro conjI)
  from reachable_ok[OF r]
  show "\<forall>s \<in> ran (sessions st).
            card (mobile_peers s) \<le> 1 \<and> (status s = Connected) = (mobileSocketId s \<noteq> None)"
    by (simp add: relay_ok_def session_ok_def)
next
  show "\<forall>sock sid s. sessions st sid = Some s \<longrightarrow>
            sessions (fst (step st (MobileJoin sock sid))) =
              (sessions st)(sid \<mapsto> s\<lparr>mobileSocketId := Some sock, status := Connected\<rparr>) \<and>
            mobile_peers (s\<lparr>mobileSocketId := Some sock, status := Connected\<rparr>) = {sock}"
    by (simp add: mobile_join_def mobile_peers_def)
next
  show "\<forall>sock sid. sessions st sid = None \<longrightarrow>
            step st (MobileJoin sock sid) = (st, [ToSocket sock (Error ''Session not found'')])"
    by (simp add: mobile_join_def)
next
  show "\<forall>sock sid s.
            socketToSession st sock = Some sid \<and> sid \<noteq> [] \<and> sessions st sid = Some s \<and>
            mobileSocketId s = Some sock \<and> pcSocketId s \<noteq> sock \<longrightarrow>
            sessions (fst (step st (Disconnect sock))) =
              (sessions st)(sid \<mapsto> s\<lparr>mobileSocketId := None, status := Waiting\<rparr>)"
    using disconnect_mobile by blast
qed

text \<open>
  The claim as written fails in two reachable states. A socket that joined session A and
  then session B as mobile is remembered for B only: when it disconnects, A still stores
  it as mobile with status \<open>connected\<close>. A socket that is both the PC and the mobile of
  a session is handled as the PC when it disconnects, and the mobile socket id stays.
\<close>

theorem relay_stale_mobile_counterexample:
  "reachable (run_events two_sessions) \<and>
   sessions (run_events two_sessions) ''A'' =
     Some \<lparr>pcSocketId = ''pc1'', mobileSocketId = Some ''m'', status = Connected, createdAt = 1\<rparr> \<and>
   sessions (fst (step (run_events two_sessions) (Disconnect ''m''))) ''A'' =
     Some \<lparr>pcSocketId = ''pc1'', mobileSocketId = Some ''m'', status = Connected, createdAt = 1\<rparr> \<and>
   reachable (run_events both_roles) \<and>
   sessions (run_events both_roles) ''A'' =
     Some \<lparr>pcSocketId = ''s'', mobileSocketId = Some ''s'', status = Connected, createdAt = 1\<rparr> \<and>
   sessions (fst (step (run_events both_roles) (Disconnect ''s''))) ''A'' =
     Some \<lparr>pcSocketId = ''s'', mobileSocketId = Some ''s'', status = Connected, createdAt = 1\<rparr>"
proof -
  have "reachable (run_events two_sessions)" and "reachable (run_events both_roles)"
    by (rule reachable_run)+
  then show ?thesis
    by (simp add: run_events_def two_sessions_def both_roles_def initial_def
        pc_join_def mobile_join_def disconnect_def new_session_def Let_def)
qed

text \<open>
  After a PC and a mobile have joined session A: a second mobile replaces the first, a
  join on the unknown session Z is answered by the error alone, and the disconnect of the
  mobile resets the session.
\<close>

theorem relay_one_mobile_peer_witness:
  "sessions (fst (step (run_events paired) (MobileJoin ''m2'' ''A''))) ''A'' =
     Some \<lparr>pcSocketId = ''pc1'', mobileSocketId = Some ''m2'', status = Connected, createdAt = 1\<rparr> \<and>
   step (run_events paired) (MobileJoin ''m2'' ''Z'') =
     (run_events paired, [ToSocket ''m2'' (Error ''Session not found'')]) \<and>
   sessions (fst (step (run_events paired) (Disconnect ''m''))) ''A'' =
     Some \<lparr>pcSocketId = ''pc1'', mobileSocketId = None, status = Waiting, createdAt = 1\<rparr>"
proof -
  let ?s = "\<lparr>pcSocketId = ''pc1'', mobileSocketId = Some ''m'', status = Connected, createdAt = 1\<rparr>"
  have r: "reachable (run_events paired)" by (rule reachable_run)
  have a: "sessions (run_events paired) ''A'' = Some ?s"
    by (simp add: run_events_def paired_def initial_def pc_join_def mobile_join_def
        new_session_def Let_def)
  have z: "sessions (run_events paired) ''Z'' = None"
    by (simp add: run_events_def paired_def initial_def pc_join_def mobile_join_def
        new_session_def Let_def)
  have m: "socketToSession (run_events paired) ''m'' = Some ''A''"
    by (simp add: run_events_def paired_def initial_def pc_join_def mobile_join_def
        new_session_def Let_def)
  note t = relay_one_mobile_peer[OF r]
  from t a have "sessions (fst (step (run_events paired) (MobileJoin ''m2'' ''A''))) =
      (sessions (run_events paired))(''A'' \<mapsto> ?s\<lparr>mobileSocketId := Some ''m2'', status := Connected\<rparr>)"
    by blast
  then have 1: "sessions (fst (step (run_events paired) (MobileJoin ''m2'' ''A''))) ''A'' =
     Some \<lparr>pcSocketId = ''pc1'', mobileSocketId = Some ''m2'', status = Connected, createdAt = 1\<rparr>"
    by simp
  from t z have 2: "step (run_events paired) (MobileJoin ''m2'' ''Z'') =
     (run_events paired, [ToSocket ''m2'' (Error ''Session not found'')])"
    by blast
  have "socketToSession (run_events paired) ''m'' = Some ''A'' \<and> ''A'' \<noteq> [] \<and>
        sessions (run_events paired) ''A'' = Some ?s \<and>
        mobileSocketId ?s = Some ''m'' \<and> pcSocketId ?s \<noteq> ''m''"
    using a m by simp
  with t have "sessions (fst (step (run_events paired) (Disconnect ''m''))) =
      (sessions (run_events paired))(''A'' \<mapsto> ?s\<lparr>mobileSocketId := None, status := Waiting\<rparr>)"
    by blast
  then have 3: "sessions (fst (step (run_events paired) (Disconnect ''m''))) ''A'' =
     Some \<lparr>pcSocketId = ''pc1'', mobileSocketId = None, status = Waiting, createdAt = 1\<rparr>"
    by simp
  from 1 2 3 show ?thesis by simp
qed

section \<open>Properties of the size recommendation\<close>

lemma find_size_None: "find_size ms table = None \<longleftrightarrow> (\<forall>e \<in> set table. \<not> fits ms (snd e))"
  by (induction table) (auto split: if_splits)

lemma find_size_Some:
  "find_size ms table = Some l \<longleftrightarrow> (\<exists>i. first_fit ms table i \<and> fst (table ! i) = l)"
proof (induction table)
  case Nil
  show ?case by (simp add: first_fit_def)
next
  case (Cons e table)
  obtain label rs where e: "e = (label, rs)" by (cases e)
  show ?case
  proof (cases "fits ms rs")
    case True
    have "first_fit ms (e # table) i \<longleftrightarrow> i = 0" for i
      using True e by (cases i) (auto simp: first_fit_def)
    with True e show ?thesis by auto
  next
    case False
    have "first_fit ms (e # table) i \<longleftrightarrow> (\<exists>k. i = Suc k \<and> first_fit ms table k)" for i
    proof (cases i)
      case 0
      with False e show ?thesis by (simp add: first_fit_def)
    next
      case (Suc k)
      have "(\<forall>j < Suc k. \<not> fits ms (snd ((e # table) ! j))) \<longleftrightarrow> (\<forall>j < k. \<not> fits ms (snd (table ! j)))"
        using False e by (auto simp: less_Suc_eq_0_disj)
      with Suc show ?thesis by (simp add: first_fit_def)
    qed
    with False e Cons.IH show ?thesis by auto
  qed
qed

lemma recommend_known:
  "chart brand = Some categories \<Longrightarrow> categories category = Some tables \<Longrightarrow>
   recommend chart ms brand category =
     Inr \<lparr>male_size = find_size ms (tables Male), female_size = find_size ms (tables Female)\<rparr>"
  by (simp add: recommend_def)

lemma size_for_known:
  "size_for g \<lparr>male_size = find_size ms (tables Male), female_size = find_size ms (tables Female)\<rparr>
     = find_size ms (tables g)"
  by (cases g) simp_all

lemma find_size_label: "find_size ms table = Some l \<Longrightarrow> l \<in> fst ` set table"
  by (induction table) (auto split: if_splits)

lemma size_results_none:
  "size_for g r = None \<Longrightarrow> SizeCard (card_title g) l \<notin> set (size_results r)"
  by (cases g) (simp_all add: size_results_def)

lemma size_results_some:
  "size_for g r = Some l \<Longrightarrow> l \<noteq> [] \<Longrightarrow>
   SizeCard (card_title g) l \<in> set (size_results r) \<and>
   Paragraph ''Aucune taille disponible pour ces mesures'' \<notin> set (size_results r)"
  by (cases g) (simp_all add: size_results_def)

lemma size_results_no_size:
  "male_size r = None \<Longrightarrow> female_size r = None \<Longrightarrow>
   size_results r = [Paragraph ''Aucune taille disponible pour ces mesures'']"
  by (simp add: size_results_def)

text \<open>
  Claim C2. For a known brand and category, \<open>recommend\<close> succeeds, and for each
  gender the size it returns is the label at the first position of that gender's table
  (the brand's ordering, smallest first) whose ranges contain every required
  measurement: a label is returned exactly when it stands at a position that fits and
  no earlier position fits. So of several sizes whose ranges all contain the
  measurements, the smallest is returned.
\<close>

theorem recommend_smallest_fitting_size:
  assumes b: "chart brand = Some categories" and c: "categories category = Some tables"
  shows "\<exists>r. recommend chart ms brand category = Inr r \<and>
           (\<forall>g l. size_for g r = Some l \<longleftrightarrow>
                    (\<exists>i. i < length (tables g) \<and> fst (tables g ! i) = l \<and>
                         fits ms (snd (tables g ! i)) \<and>
                         (\<forall>j < i. \<not> fits ms (snd (tables g ! j)))))"
proof -
  let ?r = "\<lparr>male_size = find_size ms (tables Male), female_size = find_size ms (tables Female)\<rparr>"
  have "size_for g ?r = Some l \<longleftrightarrow>
          (\<exists>i. i < length (tables g) \<and> fst (tables g ! i) = l \<and>
               fits ms (snd (tables g ! i)) \<and> (\<forall>j < i. \<not> fits ms (snd (tables g ! j))))" for g l
    unfolding size_for_known find_size_Some first_fit_def by blast
  with recommend_known[where chart = chart and brand = brand and categories = categories
      and category = category and tables = tables and ms = ms, OF b c]
  show ?thesis by blast
qed

text \<open>
  Chest 95 and waist 77 lie in the ranges of both S and M of the men's table: S, the
  smaller, is returned.
\<close>

theorem recommend_smallest_fitting_size_witness:
  "recommend example_chart between_s_and_m ''Zara'' ''tops''
     = Inr \<lparr>male_size = Some ''S'', female_size = None\<rparr>
   \<and> fits between_s_and_m (snd (tops_male ! 0)) \<and> fits between_s_and_m (snd (tops_male ! 1))
   \<and> (\<exists>i. i < length tops_male \<and> fst (tops_male ! i) = ''S'' \<and>
            fits between_s_and_m (snd (tops_male ! i)) \<and>
            (\<forall>j < i. \<not> fits between_s_and_m (snd (tops_male ! j))))"
proof -
  have b: "example_chart ''Zara'' = Some [''tops'' \<mapsto> tops_tables]"
    by (simp add: example_chart_def)
  have c: "[''tops'' \<mapsto> tops_tables] ''tops'' = Some tops_tables" by simp
  have r: "recommend example_chart between_s_and_m ''Zara'' ''tops''
     = Inr \<lparr>male_size = Some ''S'', female_size = None\<rparr>"
    by (simp add: recommend_def example_chart_def tops_male_def tops_female_def
        between_s_and_m_def)
  from recommend_smallest_fitting_size[where chart = example_chart and brand = "''Zara''"
      and categories = "[''tops'' \<mapsto> tops_tables]" and category = "''tops''"
      and tables = tops_tables and ms = between_s_and_m, OF b c] r
  have "\<forall>g l. size_for g \<lparr>male_size = Some ''S'', female_size = None\<rparr> = Some l \<longleftrightarrow>
                    (\<exists>i. i < length (tops_tables g) \<and> fst (tops_tables g ! i) = l \<and>
                         fits between_s_and_m (snd (tops_tables g ! i)) \<and>
                         (\<forall>j < i. \<not> fits between_s_and_m (snd (tops_tables g ! j))))"
    by simp
  then have "size_for Male \<lparr>male_size = Some ''S'', female_size = None\<rparr> = Some ''S'' \<longleftrightarrow>
                    (\<exists>i. i < length (tops_tables Male) \<and> fst (tops_tables Male ! i) = ''S'' \<and>
                         fits between_s_and_m (snd (tops_tables Male ! i)) \<and>
                         (\<forall>j < i. \<not> fits between_s_and_m (snd (tops_tables Male ! j))))"
    by blast
  then have e: "\<exists>i. i < length tops_male \<and> fst (tops_male ! i) = ''S'' \<and>
            fits between_s_and_m (snd (tops_male ! i)) \<and>
            (\<forall>j < i. \<not> fits between_s_and_m (snd (tops_male ! j)))"
    by simp
  have f: "fits between_s_and_m (snd (tops_male ! 0)) \<and> fits between_s_and_m (snd (tops_male ! 1))"
    by (simp add: tops_male_def between_s_and_m_def)
  from r e f show ?thesis by simp
qed

text \<open>
  Claim C4. For a known brand and category, \<open>recommend\<close> returns a result, not a
  failure. For a gender none of whose sizes contains the measurements the result holds
  no size and the front end shows no card for that gender; for a gender with a fitting
  size (size labels being non-empty) the result holds that size and the front end shows
  its card and not the no-size sentence; when no size of either gender fits, the front
  end shows exactly the sentence "Aucune taille disponible pour ces mesures".
\<close>

theorem recommend_no_match_is_not_an_error:
  assumes b: "chart brand = Some categories" and c: "categories category = Some tables"
  shows "\<exists>r. recommend chart ms brand category = Inr r \<and>
           (\<forall>g. (\<forall>e \<in> set (tables g). \<not> fits ms (snd e)) \<longrightarrow>
                  size_for g r = None \<and>
                  (\<forall>l. SizeCard (card_title g) l \<notin> set (size_results r))) \<and>
           (\<forall>g. (\<exists>e \<in> set (tables g). fits ms (snd e)) \<and> (\<forall>e \<in> set (tables g). fst e \<noteq> []) \<longrightarrow>
                  (\<exists>l. size_for g r = Some l \<and>
                       SizeCard (card_title g) l \<in> set (size_results r)) \<and>
                  Paragraph ''Aucune taille disponible pour ces mesures'' \<notin> set (size_results r)) \<and>
           ((\<forall>g. \<forall>e \<in> set (tables g). \<not> fits ms (snd e)) \<longrightarrow>
              size_results r = [Paragraph ''Aucune taille disponible pour ces mesures''])"
proof -
  let ?r = "\<lparr>male_size = find_size ms (tables Male), female_size = find_size ms (tables Female)\<rparr>"
  have sf: "size_for g ?r = find_size ms (tables g)" for g
    by (rule size_for_known)
  have 1: "size_for g ?r = None \<and> (\<forall>l. SizeCard (card_title g) l \<notin> set (size_results ?r))"
    if "\<forall>e \<in> set (tables g). \<not> fits ms (snd e)" for g
  proof -
    from that have "size_for g ?r = None" unfolding sf by (simp add: find_size_None)
    then show ?thesis using size_results_none by blast
  qed
  have 2: "(\<exists>l. size_for g ?r = Some l \<and> SizeCard (card_title g) l \<in> set (size_results ?r)) \<and>
           Paragraph ''Aucune taille disponible pour ces mesures'' \<notin> set (size_results ?r)"
    if f: "\<exists>e \<in> set (tables g). fits ms (snd e)" and n: "\<forall>e \<in> set (tables g). fst e \<noteq> []" for g
  proof -
    from f have "find_size ms (tables g) \<noteq> None" by (simp add: find_size_None)
    then obtain l where l: "find_size ms (tables g) = Some l" by blast
    from find_size_label[OF l] n have "l \<noteq> []" by auto
    with l sf[of g] size_results_some[of g ?r l] show ?thesis by simp
  qed
  have 3: "size_results ?r = [Paragraph ''Aucune taille disponible pour ces mesures'']"
    if "\<forall>g. \<forall>e \<in> set (tables g). \<not> fits ms (snd e)"
  proof -
    from that have "find_size ms (tables Male) = None" "find_size ms (tables Female) = None"
      by (simp_all add: find_size_None)
    then show ?thesis by (simp add: size_results_no_size)
  qed
  from 1 2 3 recommend_known[where chart = chart and brand = brand and categories = categories
      and category = category and tables = tables and ms = ms, OF b c]
  show ?thesis by blast
qed

text \<open>
  Measurements above every upper bound give a result without sizes, shown as the no-size
  sentence; measurements that fit give a result with a size, shown as a card.
\<close>

theorem recommend_no_match_is_not_an_error_witness:
  "recommend example_chart too_large ''Zara'' ''tops''
     = Inr \<lparr>male_size = None, female_size = None\<rparr>
   \<and> size_results \<lparr>male_size = None, female_size = None\<rparr>
       = [Paragraph ''Aucune taille disponible pour ces mesures'']
   \<and> recommend example_chart between_s_and_m ''Zara'' ''tops''
       = Inr \<lparr>male_size = Some ''S'', female_size = None\<rparr>
   \<and> size_results \<lparr>male_size = Some ''S'', female_size = None\<rparr> = [SizeCard ''Homme:'' ''S'']"
proof -
  have b: "example_chart ''Zara'' = Some [''tops'' \<mapsto> tops_tables]"
    by (simp add: example_chart_def)
  have c: "[''tops'' \<mapsto> tops_tables] ''tops'' = Some tops_tables" by simp
  have r: "recommend example_chart too_large ''Zara'' ''tops''
     = Inr \<lparr>male_size = None, female_size = None\<rparr>"
    by (simp add: recommend_def example_chart_def tops_male_def tops_female_def too_large_def)
  have n: "\<forall>g. \<forall>e \<in> set (tops_tables g). \<not> fits too_large (snd e)"
  proof
    fix g show "\<forall>e \<in> set (tops_tables g). \<not> fits too_large (snd e)"
      by (cases g) (simp_all add: tops_male_def tops_female_def too_large_def)
  qed
  from recommend_no_match_is_not_an_error[where chart = example_chart and brand = "''Zara''"
      and categories = "[''tops'' \<mapsto> tops_tables]" and category = "''tops''"
      and tables = tops_tables and ms = too_large, OF b c] r n
  have 1: "size_results \<lparr>male_size = None, female_size = None\<rparr>
       = [Paragraph ''Aucune taille disponible pour ces mesures'']"
    by auto
  have 2: "recommend example_chart between_s_and_m ''Zara'' ''tops''
       = Inr \<lparr>male_size = Some ''S'', female_size = None\<rparr>"
    by (simp add: recommend_def example_chart_def tops_male_def tops_female_def
        between_s_and_m_def)
  have 3: "size_results \<lparr>male_size = Some ''S'', female_size = None\<rparr> = [SizeCard ''Homme:'' ''S'']"
    by (simp add: size_results_def)
  from r 1 2 3 show ?thesis by simp
qed

section \<open>Properties of the calibration\<close>

text \<open>
  Claim C3. For every known height that is at most 0 or above 250, whatever the
  keypoints, the detected pixel height and the minimum pixel height, \<open>calibrate\<close>
  fails with \<open>InvalidHeight\<close>; \<open>analyze\<close> then returns no result, and it fails with
  \<open>InvalidHeight\<close> whenever the detector found a subject in every supplied image, so
  that the calibration is reached.
\<close>

theorem calibrate_invalid_height:
  assumes h: "known_height_cm \<le> 0 \<or> known_height_cm > 250"
  shows "calibrate detected_pixel_height min_pixel_height keypoints known_height_cm
           = Inl InvalidHeight
       \<and> (\<forall>r. analyze detected_pixel_height min_pixel_height estimate front side known_height_cm
                 \<noteq> Inr r)
       \<and> (front \<noteq> None \<and> side \<noteq> Some None \<longrightarrow>
            analyze detected_pixel_height min_pixel_height estimate front side known_height_cm
              = Inl InvalidHeight)"
proof -
  have c: "calibrate detected_pixel_height min_pixel_height k known_height_cm = Inl InvalidHeight"
    for k
    using h by (auto simp add: calibrate_def)
  have "analyze detected_pixel_height min_pixel_height estimate front side known_height_cm \<noteq> Inr r"
    for r
    by (simp add: analyze_def c split: option.splits)
  moreover have "front \<noteq> None \<and> side \<noteq> Some None \<longrightarrow>
            analyze detected_pixel_height min_pixel_height estimate front side known_height_cm
              = Inl InvalidHeight"
    by (auto simp add: analyze_def c split: option.splits)
  ultimately show ?thesis using c by blast
qed

text \<open>
  Heights 300 and 0 are rejected on the keypoints of the specification's example, on
  which the height 175 calibrates to 175 / 397 cm per pixel.
\<close>

theorem calibrate_invalid_height_witness:
  "calibrate nose_to_ankle 20 example_keypoints 300 = Inl InvalidHeight
   \<and> calibrate nose_to_ankle 20 example_keypoints 0 = Inl InvalidHeight
   \<and> analyze nose_to_ankle 20 shoulder_span (Some example_keypoints) None 300 = Inl InvalidHeight
   \<and> calibrate nose_to_ankle 20 example_keypoints 175 = Inr (175 / 397)
   \<and> analyze nose_to_ankle 20 shoulder_span (Some example_keypoints) None 175
       = Inr (80 * (175 / 397))"
proof -
  have a: "calibrate nose_to_ankle 20 example_keypoints 300 = Inl InvalidHeight
     \<and> analyze nose_to_ankle 20 shoulder_span (Some example_keypoints) None 300 = Inl InvalidHeight"
    using calibrate_invalid_height[of 300 nose_to_ankle 20 example_keypoints shoulder_span
        "Some example_keypoints" None]
    by simp
  have b: "calibrate nose_to_ankle 20 example_keypoints 0 = Inl InvalidHeight"
    using calibrate_invalid_height[of 0 nose_to_ankle 20 example_keypoints shoulder_span
        "Some example_keypoints" None]
    by simp
  have c: "calibrate nose_to_ankle 20 example_keypoints 175 = Inr (175 / 397)"
    by (simp add: calibrate_def nose_to_ankle_def example_keypoints_def)
  have d: "analyze nose_to_ankle 20 shoulder_span (Some example_keypoints) None 175
       = Inr (80 * (175 / 397))"
    by (simp add: analyze_def calibrate_def nose_to_ankle_def example_keypoints_def
        shoulder_span_def)
  from a b c d show ?thesis by simp
qed

end
